theory Spec2Isabelle
  imports Complex_Main
begin

section \<open>The request handler of app.py\<close>

text \<open>
  Python strings are modelled as HOL strings, one \<^typ>\<open>char\<close> per code point (the code
  points below 256). A Python exception is a value of \<open>exn\<close>; a function that may raise
  returns \<open>exn + 'a\<close>, with \<open>Inl\<close> for the exception raised.
\<close>

datatype exn = ValueError string | OtherError string

fun exn_message :: "exn \<Rightarrow> string" where
  "exn_message (ValueError msg) = msg"
| "exn_message (OtherError msg) = msg"

subsection \<open>Builtins: str.strip, int, float\<close>

text \<open>
  \<open>str.isspace\<close> on one code point: the characters 9 to 13, 28 to 32, 133 and 160 are the
  white space of Unicode below 256.
\<close>

definition py_isspace :: "char \<Rightarrow> bool" where
  "py_isspace c =
     (let n = (of_char c :: nat)
      in (9 \<le> n \<and> n \<le> 13) \<or> (28 \<le> n \<and> n \<le> 32) \<or> n = 133 \<or> n = 160)"

definition py_strip :: "string \<Rightarrow> string" where
  "py_strip s = rev (dropWhile py_isspace (rev (dropWhile py_isspace s)))"

definition is_digit :: "char \<Rightarrow> bool" where
  "is_digit c = (48 \<le> (of_char c :: nat) \<and> (of_char c :: nat) \<le> 57)"

definition digit_of :: "char \<Rightarrow> nat" where
  "digit_of c = of_char c - 48"

text \<open>
  The digits of a decimal integer literal, read left to right: single underscores are
  allowed between two digits. \<open>ok\<close> says that the previous character was a digit.
\<close>

fun int_digits :: "nat \<Rightarrow> bool \<Rightarrow> string \<Rightarrow> nat option" where
  "int_digits acc ok [] = (if ok then Some acc else None)"
| "int_digits acc ok (c # cs) =
     (if is_digit c then int_digits (10 * acc + digit_of c) True cs
      else if c = CHR ''_'' \<and> ok then int_digits acc False cs
      else None)"

text \<open>
  The white space that \<open>int\<close> and \<open>float\<close> drop around a literal is not that of
  \<open>str.strip\<close>: the characters 28 to 31 are not part of it.
\<close>

definition py_numeric_space :: "char \<Rightarrow> bool" where
  "py_numeric_space c =
     (let n = (of_char c :: nat)
      in (9 \<le> n \<and> n \<le> 13) \<or> n = 32 \<or> n = 133 \<or> n = 160)"

definition numeric_strip :: "string \<Rightarrow> string" where
  "numeric_strip s = rev (dropWhile py_numeric_space (rev (dropWhile py_numeric_space s)))"

definition MAX_STR_DIGITS :: nat where
  "MAX_STR_DIGITS = 4300"

text \<open>
  \<open>int(s)\<close> on a string, base 10: white space around the literal is dropped, one sign is
  allowed, and a literal of more than 4300 digits is refused (the default limit of
  CPython 3.11 and later). \<open>None\<close> stands for the ValueError that \<open>int\<close> raises on
  anything else.
\<close>

definition py_int :: "string \<Rightarrow> int option" where
  "py_int s =
     (case numeric_strip s of
        [] \<Rightarrow> None
      | c # cs \<Rightarrow>
          if MAX_STR_DIGITS < length (filter is_digit (c # cs)) then None
          else if c = CHR ''-'' then map_option (\<lambda>n. - int n) (int_digits 0 False cs)
          else if c = CHR ''+'' then map_option int (int_digits 0 False cs)
          else map_option int (int_digits 0 False (c # cs)))"

text \<open>
  \<open>float(s)\<close> on a string: white space around the literal is dropped, one sign is
  allowed, then \<open>inf\<close>, \<open>infinity\<close> or \<open>nan\<close> in any case, or a decimal number with an
  optional fraction and exponent. The result is the literal read, mantissa and decimal
  exponent; its rounding to a binary64 is outside the model. \<open>None\<close> stands for the
  ValueError.
\<close>

datatype pyfloat = Decimal int int | Infinity bool | NaN

definition to_lower :: "char \<Rightarrow> char" where
  "to_lower c =
     (let n = (of_char c :: nat) in if 65 \<le> n \<and> n \<le> 90 then char_of (n + 32) else c)"

definition is_digit_or_underscore :: "char \<Rightarrow> bool" where
  "is_digit_or_underscore c = (is_digit c \<or> c = CHR ''_'')"

definition digitpart_ok :: "string \<Rightarrow> bool" where
  "digitpart_ok ds = (ds = [] \<or> int_digits 0 False ds \<noteq> None)"

definition digits_value :: "string \<Rightarrow> nat" where
  "digits_value ds = foldl (\<lambda>a c. 10 * a + digit_of c) 0 (filter is_digit ds)"

definition float_exponent :: "string \<Rightarrow> int option" where
  "float_exponent s =
     (case s of
        [] \<Rightarrow> Some 0
      | c # cs \<Rightarrow>
          if to_lower c \<noteq> CHR ''e'' then None
          else (case cs of
                  [] \<Rightarrow> None
                | d # ds \<Rightarrow>
                    if d = CHR ''-'' then map_option (\<lambda>n. - int n) (int_digits 0 False ds)
                    else if d = CHR ''+'' then map_option int (int_digits 0 False ds)
                    else map_option int (int_digits 0 False cs)))"

definition float_number :: "string \<Rightarrow> (int \<times> int) option" where
  "float_number s =
     (let ip = takeWhile is_digit_or_underscore s;
          r1 = dropWhile is_digit_or_underscore s;
          dot = (r1 \<noteq> [] \<and> hd r1 = CHR ''.'');
          r2 = (if dot then tl r1 else r1);
          fp = (if dot then takeWhile is_digit_or_underscore r2 else []);
          r3 = (if dot then dropWhile is_digit_or_underscore r2 else r2)
      in if \<not> digitpart_ok ip \<or> \<not> digitpart_ok fp \<or> (ip = [] \<and> fp = []) then None
         else (case float_exponent r3 of
                 None \<Rightarrow> None
               | Some e \<Rightarrow>
                   Some (int (digits_value (ip @ fp)),
                         e - int (length (filter is_digit fp)))))"

definition py_float :: "string \<Rightarrow> pyfloat option" where
  "py_float s =
     (let t = numeric_strip s;
          neg = (t \<noteq> [] \<and> hd t = CHR ''-'');
          body = (if t \<noteq> [] \<and> (hd t = CHR ''-'' \<or> hd t = CHR ''+'') then tl t else t);
          low = map to_lower body
      in if low = ''inf'' \<or> low = ''infinity'' then Some (Infinity neg)
         else if low = ''nan'' then Some NaN
         else map_option (\<lambda>(m, e). Decimal (if neg then - m else m) e) (float_number body))"

subsection \<open>Constants\<close>

definition MAX_FRAMES_DISPLAY :: int where
  "MAX_FRAMES_DISPLAY = 25"

record plot_form =
  matrix_text :: string
  plot_title :: string
  plot_vmin :: string
  plot_vmax :: string
  plot_cmap :: string

definition PLOT_DEFAULT_FORM :: plot_form where
  "PLOT_DEFAULT_FORM =
     \<lparr>matrix_text = '''', plot_title = ''Before Levitt'', plot_vmin = ''0'',
      plot_vmax = ''255'', plot_cmap = ''gray''\<rparr>"

definition PLOT_CMAPS :: "(string \<times> string) list" where
  "PLOT_CMAPS =
     [(''gray'', ''Gray''), (''viridis'', ''Viridis''), (''plasma'', ''Plasma''),
      (''magma'', ''Magma''), (''inferno'', ''Inferno'')]"

subsection \<open>\_safe\_int and \_parse\_optional\_float\<close>

text \<open>
  \<open>_safe_int(raw_value, default, min_value, max_value)\<close>, with \<open>dflt\<close> for
  \<open>default\<close>. The builtin \<open>int\<close> is the
  parameter \<open>to_int\<close>: it returns the integer or raises ValueError (\<open>None\<close>), which
  the \<open>except\<close> clause turns into the default. A missing \<open>raw_value\<close> or
  \<open>max_value\<close> is \<open>None\<close>.
\<close>

definition safe_int ::
  "(string \<Rightarrow> int option) \<Rightarrow> string option \<Rightarrow> int \<Rightarrow> int \<Rightarrow> int option \<Rightarrow> int" where
  "safe_int to_int raw_value dflt min_value max_value =
     (let value = (case raw_value of
                     None \<Rightarrow> dflt
                   | Some s \<Rightarrow> (case to_int s of None \<Rightarrow> dflt | Some v \<Rightarrow> v));
          value = max min_value value
      in case max_value of None \<Rightarrow> value | Some m \<Rightarrow> min m value)"

text \<open>
  \<open>_parse_optional_float(raw_value, field_name)\<close>. The builtin \<open>float\<close> is the
  parameter \<open>to_float\<close>, with \<open>None\<close> for its ValueError; the function re-raises it as
  a ValueError with its own message.
\<close>

definition parse_optional_float ::
  "(string \<Rightarrow> 'f option) \<Rightarrow> string option \<Rightarrow> string \<Rightarrow> exn + 'f option" where
  "parse_optional_float to_float raw_value field_name =
     (case raw_value of
        None \<Rightarrow> Inr None
      | Some s \<Rightarrow>
          (let stripped = py_strip s
           in if stripped = [] then Inr None
              else (case to_float stripped of
                      Some x \<Rightarrow> Inr (Some x)
                    | None \<Rightarrow> Inl (ValueError (field_name @ '' must be a number.'')))))"

subsection \<open>index: the video branch's frame selection\<close>

text \<open>
  The submitted form is a map from field names to values; \<open>request.form.get(k)\<close> is
  \<open>form k\<close> and \<open>request.form.get(k, d)\<close> is \<open>form_get form k d\<close>.
\<close>

type_synonym form = "string \<rightharpoonup> string"

definition form_get :: "form \<Rightarrow> string \<Rightarrow> string \<Rightarrow> string" where
  "form_get form k d = (case form k of None \<Rightarrow> d | Some v \<Rightarrow> v)"

definition frame_skip_of :: "(string \<Rightarrow> int option) \<Rightarrow> form \<Rightarrow> int" where
  "frame_skip_of to_int form = safe_int to_int (form ''frame_skip'') 1 1 None"

definition max_frames_of :: "(string \<Rightarrow> int option) \<Rightarrow> form \<Rightarrow> int" where
  "max_frames_of to_int form =
     safe_int to_int (form ''max_frames'') 10 1 (Some MAX_FRAMES_DISPLAY)"

subsection \<open>index: the plot branch\<close>

text \<open>
  \<open>request.form.get("plot_cmap") or PLOT_DEFAULT_FORM["plot_cmap"]\<close>, then the check
  against the values of \<open>PLOT_CMAPS\<close>.
\<close>

definition valid_cmap_values :: "string list" where
  "valid_cmap_values = map fst PLOT_CMAPS"

definition requested_cmap :: "string option \<Rightarrow> string" where
  "requested_cmap raw =
     (let requested = (case raw of
                         None \<Rightarrow> plot_cmap PLOT_DEFAULT_FORM
                       | Some v \<Rightarrow> if v = [] then plot_cmap PLOT_DEFAULT_FORM else v)
      in if requested \<notin> set valid_cmap_values then plot_cmap PLOT_DEFAULT_FORM
         else requested)"

record plot_result =
  title :: string
  data_url :: string

record plot_page =
  page_result :: "plot_result option"
  page_error :: "string option"
  page_form :: plot_form

text \<open>
  The arguments of the call \<open>matrix_to_plot_png(matrix, cmap, vmin, vmax, title)\<close>.
\<close>

record ('m, 'f) plot_call =
  call_matrix :: 'm
  call_cmap :: string
  call_vmin :: "'f option"
  call_vmax :: "'f option"
  call_title :: "string option"

definition read_plot_form :: "form \<Rightarrow> plot_form" where
  "read_plot_form form =
     \<lparr>matrix_text = form_get form ''matrix_text'' '''',
      plot_title = form_get form ''plot_title'' (plot_title PLOT_DEFAULT_FORM),
      plot_vmin = form_get form ''plot_vmin'' (plot_vmin PLOT_DEFAULT_FORM),
      plot_vmax = form_get form ''plot_vmax'' (plot_vmax PLOT_DEFAULT_FORM),
      plot_cmap = requested_cmap (form ''plot_cmap'')\<rparr>"

definition error_page :: "plot_form \<Rightarrow> string \<Rightarrow> plot_page" where
  "error_page pf msg = \<lparr>page_result = None, page_error = Some msg, page_form = pf\<rparr>"

text \<open>
  The plot branch up to the call of \<open>matrix_to_plot_png\<close>: \<open>Inl\<close> is an exception
  that leaves the handler (only ValueError is caught around \<open>parse_matrix_literal\<close>),
  \<open>Inr (Inl page)\<close> is a page rendered without calling the plotter, \<open>Inr (Inr call)\<close>
  is the call the handler makes. \<open>parse_lit\<close> stands for \<open>parse_matrix_literal\<close>.
\<close>

definition plot_prepare ::
  "(string \<Rightarrow> 'f option) \<Rightarrow> (string \<Rightarrow> exn + 'm) \<Rightarrow> form
     \<Rightarrow> exn + (plot_page + ('m, 'f) plot_call)" where
  "plot_prepare to_float parse_lit form =
     (let pf = read_plot_form form
      in if py_strip (matrix_text pf) = []
         then Inr (Inl (error_page pf ''Paste a matrix definition to generate a plot.''))
         else
           (case parse_lit (matrix_text pf) of
              Inl (ValueError msg) \<Rightarrow> Inr (Inl (error_page pf msg))
            | Inl (OtherError msg) \<Rightarrow> Inl (OtherError msg)
            | Inr matrix \<Rightarrow>
                (case parse_optional_float to_float (Some (plot_vmin pf)) ''vmin'' of
                   Inl e \<Rightarrow> Inr (Inl (error_page pf (exn_message e)))
                 | Inr vmin_value \<Rightarrow>
                     (case parse_optional_float to_float (Some (plot_vmax pf)) ''vmax'' of
                        Inl e \<Rightarrow> Inr (Inl (error_page pf (exn_message e)))
                      | Inr vmax_value \<Rightarrow>
                          Inr (Inr \<lparr>call_matrix = matrix, call_cmap = plot_cmap pf,
                                    call_vmin = vmin_value, call_vmax = vmax_value,
                                    call_title =
                                      (let t = py_strip (plot_title pf)
                                       in if t = [] then None else Some t)\<rparr>)))))"

text \<open>
  The whole plot branch: the call is made with \<open>plot_png\<close> (any exception of it is
  caught), the PNG is encoded with \<open>b64\<close> (\<open>base64.b64encode\<close>, then decoded as
  ASCII).
\<close>

definition index_plot ::
  "(string \<Rightarrow> 'f option) \<Rightarrow> (string \<Rightarrow> exn + 'm)
     \<Rightarrow> ('m \<Rightarrow> string \<Rightarrow> 'f option \<Rightarrow> 'f option \<Rightarrow> string option \<Rightarrow> exn + 'png)
     \<Rightarrow> ('png \<Rightarrow> string) \<Rightarrow> form \<Rightarrow> exn + plot_page" where
  "index_plot to_float parse_lit plot_png b64 form =
     (case plot_prepare to_float parse_lit form of
        Inl e \<Rightarrow> Inl e
      | Inr (Inl page) \<Rightarrow> Inr page
      | Inr (Inr c) \<Rightarrow>
          (case plot_png (call_matrix c) (call_cmap c) (call_vmin c) (call_vmax c)
                  (call_title c) of
             Inl e \<Rightarrow>
               Inr (error_page (read_plot_form form)
                      (''Failed to generate plot: '' @ exn_message e))
           | Inr png_bytes \<Rightarrow>
               Inr \<lparr>page_result =
                      Some \<lparr>title = (case call_title c of
                                        None \<Rightarrow> ''Matrix Plot'' | Some t \<Rightarrow> t),
                            data_url = ''data:image/png;base64,'' @ b64 png_bytes\<rparr>,
                    page_error = None,
                    page_form = read_plot_form form\<rparr>))"

section \<open>The conversion functions of matrix\_utils\<close>

text \<open>
  app.py imports \<open>format_matrix_as_sage\<close>, \<open>parse_matrix_literal\<close>,
  \<open>image_to_matrix\<close>, \<open>video_to_matrices\<close> and \<open>matrix_to_plot_png\<close> from the module
  matrix\_utils, whose source is not part of the sources read here. This section
  models the five functions from the specification's description of them. The error
  kinds are the four of the specification, and ZeroDivisionError for the exception
  that a division by zero raises.
\<close>

datatype core_error =
  DecodeError | ParseError string | RangeError | RenderError | ZeroDivisionError

text \<open>
  Modelled from the spec: the Matrix invariant of the data model (matrix\_utils is
  missing): at least one row, every row of the same length, at least one column.
\<close>

definition wf_matrix :: "'a list list \<Rightarrow> bool" where
  "wf_matrix m = (m \<noteq> [] \<and> [] \<notin> set m \<and> list_all (\<lambda>r. length r = length (hd m)) m)"

subsection \<open>format\_matrix\_as\_sage\<close>

text \<open>
  Modelled from the spec: \<open>format_matrix_as_sage\<close> (matrix\_utils is missing), on
  matrices of integer entries: the text \<open>name = [[a, b], [c, d]]\<close>, rows and entries
  separated by a comma and a space, an integer entry written in decimal without a
  decimal point, with a minus sign when negative.
\<close>

definition digit_char :: "nat \<Rightarrow> char" where
  "digit_char d = char_of (48 + d)"

function nat_digits :: "nat \<Rightarrow> string" where
  "nat_digits n = (if n < 10 then [digit_char n] else nat_digits (n div 10) @ [digit_char (n mod 10)])"
  by pat_completeness auto
termination
  by (relation "measure id") auto

declare nat_digits.simps [simp del]

definition format_int :: "int \<Rightarrow> string" where
  "format_int i = (if i < 0 then CHR ''-'' # nat_digits (nat (- i)) else nat_digits (nat i))"

fun join :: "string \<Rightarrow> string list \<Rightarrow> string" where
  "join sep [] = []"
| "join sep [x] = x"
| "join sep (x # y # ys) = x @ sep @ join sep (y # ys)"

definition format_row :: "int list \<Rightarrow> string" where
  "format_row row = ''['' @ join '', '' (map format_int row) @ '']''"

definition format_matrix_as_sage :: "int list list \<Rightarrow> string \<Rightarrow> string" where
  "format_matrix_as_sage m variable_name =
     variable_name @ '' = '' @ ''['' @ join '', '' (map format_row m) @ '']''"

text \<open>
  Modelled from the spec: a valid bare identifier (letters, digits, underscore, not
  digit-first), the variable names \<open>format_matrix_as_sage\<close> is given.
\<close>

definition is_alpha :: "char \<Rightarrow> bool" where
  "is_alpha c = (let n = (of_char c :: nat) in (65 \<le> n \<and> n \<le> 90) \<or> (97 \<le> n \<and> n \<le> 122))"

definition valid_identifier :: "string \<Rightarrow> bool" where
  "valid_identifier v =
     (v \<noteq> [] \<and> \<not> is_digit (hd v) \<and> list_all (\<lambda>c. is_alpha c \<or> is_digit c \<or> c = CHR ''_'') v)"

subsection \<open>parse\_matrix\_literal\<close>

text \<open>
  Modelled from the spec: \<open>parse_matrix_literal\<close> (matrix\_utils is missing). The text
  is stripped; what precedes the first opening bracket (an assignment \<open>name =\<close>) is
  dropped; the rest is cut into brackets, commas and words, white space separating
  words; an outer bracket encloses comma-separated rows, each a bracket of
  comma-separated numbers matching \<open>-?\d+(\.\d+)?\<close>; what follows the closing bracket is
  ignored. Empty input, unbalanced brackets, a non-numeric token, no rows, no columns
  and rows of different lengths are ParseErrors. Entries are read as rationals.
\<close>

datatype token = LBracket | RBracket | Comma | Word string

definition flush :: "string \<Rightarrow> token list" where
  "flush buf = (if buf = [] then [] else [Word buf])"

fun tokenize :: "string \<Rightarrow> string \<Rightarrow> token list" where
  "tokenize buf [] = flush buf"
| "tokenize buf (c # cs) =
     (if c = CHR ''['' then flush buf @ LBracket # tokenize [] cs
      else if c = CHR '']'' then flush buf @ RBracket # tokenize [] cs
      else if c = CHR '','' then flush buf @ Comma # tokenize [] cs
      else if py_isspace c then flush buf @ tokenize [] cs
      else tokenize (buf @ [c]) cs)"

definition digits_to_nat :: "string \<Rightarrow> nat" where
  "digits_to_nat ds = foldl (\<lambda>a c. 10 * a + digit_of c) 0 ds"

definition number_token :: "string \<Rightarrow> rat option" where
  "number_token w =
     (let neg = (w \<noteq> [] \<and> hd w = CHR ''-'');
          body = (if neg then tl w else w);
          ip = takeWhile is_digit body;
          rest = dropWhile is_digit body;
          sgn = (if neg then - 1 else 1)
      in if ip = [] then None
         else if rest = [] then Some (sgn * of_nat (digits_to_nat ip))
         else if hd rest = CHR ''.'' \<and> tl rest \<noteq> [] \<and> list_all is_digit (tl rest)
           then Some (sgn * (of_nat (digits_to_nat ip)
                              + of_nat (digits_to_nat (tl rest)) / 10 ^ length (tl rest)))
         else None)"

fun parse_items :: "token list \<Rightarrow> core_error + (rat list \<times> token list)" where
  "parse_items (Word w # Comma # ts) =
     (case number_token w of
        None \<Rightarrow> Inl (ParseError (''non-numeric token: '' @ w))
      | Some x \<Rightarrow>
          (case parse_items ts of
             Inl e \<Rightarrow> Inl e
           | Inr (xs, rest) \<Rightarrow> Inr (x # xs, rest)))"
| "parse_items (Word w # RBracket # ts) =
     (case number_token w of
        None \<Rightarrow> Inl (ParseError (''non-numeric token: '' @ w))
      | Some x \<Rightarrow> Inr ([x], ts))"
| "parse_items ts = Inl (ParseError ''unbalanced brackets'')"

fun parse_row :: "token list \<Rightarrow> core_error + (rat list \<times> token list)" where
  "parse_row (LBracket # RBracket # ts) = Inr ([], ts)"
| "parse_row (LBracket # ts) = parse_items ts"
| "parse_row ts = Inl (ParseError ''unbalanced brackets'')"

text \<open>
  Both row parsers return a strictly shorter input, which is what makes the loop over
  the rows terminate.
\<close>

lemma parse_items_rest: "parse_items ts = Inr (xs, rest) \<Longrightarrow> length rest < length ts"
  by (induction ts arbitrary: xs rest rule: parse_items.induct)
     (fastforce split: option.splits sum.splits)+

lemma parse_row_rest: "parse_row ts = Inr (xs, rest) \<Longrightarrow> length rest < length ts"
  by (cases ts rule: parse_row.cases) (auto dest: parse_items_rest)

function parse_rows :: "token list \<Rightarrow> core_error + (rat list list \<times> token list)" where
  "parse_rows ts =
     (case parse_row ts of
        Inl e \<Rightarrow> Inl e
      | Inr (row, Comma # rest) \<Rightarrow>
          (case parse_rows rest of
             Inl e \<Rightarrow> Inl e
           | Inr (rows, rest') \<Rightarrow> Inr (row # rows, rest'))
      | Inr (row, RBracket # rest) \<Rightarrow> Inr ([row], rest)
      | Inr (row, _) \<Rightarrow> Inl (ParseError ''unbalanced brackets''))"
  by pat_completeness auto
termination
  by (relation "measure length") (auto dest: parse_row_rest)

declare parse_rows.simps [simp del]

definition check_shape :: "rat list list \<Rightarrow> core_error + rat list list" where
  "check_shape rows =
     (if rows = [] then Inl (ParseError ''matrix has no rows'')
      else if [] \<in> set rows then Inl (ParseError ''matrix has no columns'')
      else if \<not> list_all (\<lambda>r. length r = length (hd rows)) rows
        then Inl (ParseError ''rows have different lengths'')
      else Inr rows)"

definition parse_matrix_literal :: "string \<Rightarrow> core_error + rat list list" where
  "parse_matrix_literal text =
     (let stripped = py_strip text
      in if stripped = [] then Inl (ParseError ''empty input'')
         else (case tokenize [] (dropWhile (\<lambda>c. c \<noteq> CHR ''['') stripped) of
                 LBracket # RBracket # _ \<Rightarrow> Inl (ParseError ''matrix has no rows'')
               | LBracket # ts \<Rightarrow>
                   (case parse_rows ts of
                      Inl e \<Rightarrow> Inl e
                    | Inr (rows, _) \<Rightarrow> check_shape rows)
               | _ \<Rightarrow> Inl (ParseError ''unbalanced brackets'')))"

text \<open>
  The tokens of a formatted row and of a formatted matrix body, used to state what the
  tokenizer returns on the output of \<open>format_matrix_as_sage\<close>.
\<close>

definition word_char :: "char \<Rightarrow> bool" where
  "word_char c = (c \<noteq> CHR ''['' \<and> c \<noteq> CHR '']'' \<and> c \<noteq> CHR '','' \<and> \<not> py_isspace c)"

fun row_tokens :: "int list \<Rightarrow> token list" where
  "row_tokens [] = []"
| "row_tokens [x] = [Word (format_int x)]"
| "row_tokens (x # y # ys) = Word (format_int x) # Comma # row_tokens (y # ys)"

fun matrix_tokens :: "int list list \<Rightarrow> token list" where
  "matrix_tokens [] = []"
| "matrix_tokens [r] = LBracket # row_tokens r @ [RBracket]"
| "matrix_tokens (r # r' # rs) =
     LBracket # row_tokens r @ RBracket # Comma # matrix_tokens (r' # rs)"

subsection \<open>video\_to\_matrices\<close>

text \<open>
  Modelled from the spec: \<open>video_to_matrices\<close> (matrix\_utils is missing). A container
  that cannot be opened is \<open>None\<close> and gives DecodeError; otherwise the frames are walked
  in order with their 0-based decode index, a frame is selected when the index modulo
  \<open>frame_skip\<close> is 0, each selected frame goes through the image pipeline \<open>sample\<close>, and
  the walk stops when \<open>max_frames\<close> matrices have been emitted or the frames are
  exhausted. The policy has \<open>frame_skip \<ge> 1\<close>.
\<close>

fun walk_frames :: "('fr \<Rightarrow> 'm) \<Rightarrow> nat \<Rightarrow> nat \<Rightarrow> nat \<Rightarrow> 'fr list \<Rightarrow> 'm list \<Rightarrow> 'm list" where
  "walk_frames sample frame_skip max_frames i [] out = out"
| "walk_frames sample frame_skip max_frames i (f # fs) out =
     (if max_frames \<le> length out then out
      else if i mod frame_skip = 0
        then walk_frames sample frame_skip max_frames (Suc i) fs (out @ [sample f])
      else walk_frames sample frame_skip max_frames (Suc i) fs out)"

definition video_to_matrices ::
  "('fr \<Rightarrow> 'm) \<Rightarrow> nat \<Rightarrow> nat \<Rightarrow> 'fr list option \<Rightarrow> core_error + 'm list" where
  "video_to_matrices sample frame_skip max_frames stream =
     (case stream of
        None \<Rightarrow> Inl DecodeError
      | Some frames \<Rightarrow> Inr (walk_frames sample frame_skip max_frames 0 frames []))"

definition selected_indices :: "nat \<Rightarrow> nat \<Rightarrow> nat list" where
  "selected_indices frame_skip n = filter (\<lambda>i. i mod frame_skip = 0) [0..<n]"

subsection \<open>matrix\_to\_plot\_png\<close>

text \<open>
  Modelled from the spec: \<open>matrix_to_plot_png\<close> (matrix\_utils is missing). A matrix
  with no rows or an empty row is a RenderError. Each bound is the explicit one when
  given, else the matrix's own minimum or maximum; \<open>vmin > vmax\<close> after resolution is a
  RangeError. Otherwise every entry is mapped to its position in the range, clamped to
  0 .. 1, and to a colour of the named scale (gray for an unrecognised name). The
  colour scales \<open>palette\<close> and the PNG encoder \<open>encode\<close> are parameters.
\<close>

definition degenerate :: "'a list list \<Rightarrow> bool" where
  "degenerate m = (m = [] \<or> [] \<in> set m)"

definition matrix_min :: "rat list list \<Rightarrow> rat" where
  "matrix_min m = (case concat m of [] \<Rightarrow> 0 | v # vs \<Rightarrow> fold min vs v)"

definition matrix_max :: "rat list list \<Rightarrow> rat" where
  "matrix_max m = (case concat m of [] \<Rightarrow> 0 | v # vs \<Rightarrow> fold max vs v)"

definition resolve_bounds :: "rat list list \<Rightarrow> rat option \<Rightarrow> rat option \<Rightarrow> rat \<times> rat" where
  "resolve_bounds m vmin vmax =
     ((case vmin of Some a \<Rightarrow> a | None \<Rightarrow> matrix_min m),
      (case vmax of Some b \<Rightarrow> b | None \<Rightarrow> matrix_max m))"

definition color_position :: "rat \<Rightarrow> rat \<Rightarrow> rat \<Rightarrow> rat" where
  "color_position lo hi v = (if hi = lo then 0 else max 0 (min 1 ((v - lo) / (hi - lo))))"

definition scale_name :: "string \<Rightarrow> string" where
  "scale_name cmap = (if cmap \<in> set valid_cmap_values then cmap else ''gray'')"

definition matrix_to_plot_png ::
  "(string \<Rightarrow> rat \<Rightarrow> 'c) \<Rightarrow> ('c list list \<Rightarrow> string option \<Rightarrow> 'png) \<Rightarrow> rat list list \<Rightarrow> string
     \<Rightarrow> rat option \<Rightarrow> rat option \<Rightarrow> string option \<Rightarrow> core_error + 'png" where
  "matrix_to_plot_png palette encode m cmap vmin vmax title_value =
     (if degenerate m then Inl RenderError
      else (case resolve_bounds m vmin vmax of
              (lo, hi) \<Rightarrow>
                if hi < lo then Inl RangeError
                else Inr (encode
                            (map (map (\<lambda>v. palette (scale_name cmap) (color_position lo hi v))) m)
                            (case title_value of
                               None \<Rightarrow> None
                             | Some t \<Rightarrow> if t = [] then None else Some t))))"

subsection \<open>image\_to\_matrix\<close>

text \<open>
  Modelled from the spec: \<open>image_to_matrix\<close> (matrix\_utils is missing). Bytes that do
  not decode give DecodeError. The decoded image is turned into a grid of grayscale
  intensities of the target size (\<open>resample\<close>, a parameter, as is \<open>decode\<close>); with
  \<open>rescale\<close> the grid's own minimum and maximum are mapped linearly to 0 .. 255 and
  rounded, and a grid whose minimum equals its maximum becomes the constant 0 without
  going through the linear map. Any exception of the rescale leaves the function.
\<close>

text \<open>
  Division raises on a zero divisor, so it returns a result or ZeroDivisionError.
\<close>

definition checked_div :: "rat \<Rightarrow> rat \<Rightarrow> core_error + rat" where
  "checked_div a b = (if b = 0 then Inl ZeroDivisionError else Inr (a / b))"

text \<open>
  The linear map of one intensity from \<open>lo .. hi\<close> onto 0 .. 255, rounded to the nearest
  integer. It divides by \<open>hi - lo\<close>.
\<close>

definition rescale_value :: "rat \<Rightarrow> rat \<Rightarrow> rat \<Rightarrow> core_error + int" where
  "rescale_value lo hi x =
     (case checked_div ((x - lo) * 255) (hi - lo) of
        Inl e \<Rightarrow> Inl e
      | Inr q \<Rightarrow> Inr (round q))"

text \<open>
  A loop over a list that stops at the first exception.
\<close>

fun map_result :: "('a \<Rightarrow> 'e + 'b) \<Rightarrow> 'a list \<Rightarrow> 'e + 'b list" where
  "map_result f [] = Inr []"
| "map_result f (x # xs) =
     (case f x of
        Inl e \<Rightarrow> Inl e
      | Inr y \<Rightarrow>
          (case map_result f xs of
             Inl e \<Rightarrow> Inl e
           | Inr ys \<Rightarrow> Inr (y # ys)))"

definition rescale_intensity :: "rat list list \<Rightarrow> core_error + int list list" where
  "rescale_intensity g =
     (case concat g of
        [] \<Rightarrow> Inr (map (map (\<lambda>_. 0)) g)
      | v # vs \<Rightarrow>
          (let lo = fold min vs v; hi = fold max vs v
           in if hi = lo then Inr (map (map (\<lambda>_. 0)) g)
              else map_result (map_result (rescale_value lo hi)) g))"

definition image_to_matrix ::
  "('b \<Rightarrow> 'img option) \<Rightarrow> ('img \<Rightarrow> nat \<times> nat \<Rightarrow> rat list list) \<Rightarrow> 'b \<Rightarrow> nat \<times> nat \<Rightarrow> bool
     \<Rightarrow> core_error + rat list list" where
  "image_to_matrix decode resample image_bytes target_size rescale =
     (case decode image_bytes of
        None \<Rightarrow> Inl DecodeError
      | Some img \<Rightarrow>
          (let g = resample img target_size
           in if rescale
              then (case rescale_intensity g of
                      Inl e \<Rightarrow> Inl e
                    | Inr m \<Rightarrow> Inr (map (map rat_of_int) m))
              else Inr g))"

section \<open>Properties of the request handler\<close>

lemma valid_cmap_values_eq:
  "set valid_cmap_values = {''gray'', ''viridis'', ''plasma'', ''magma'', ''inferno''}"
  by (simp add: valid_cmap_values_def PLOT_CMAPS_def)

lemma py_strip_all_space:
  assumes "list_all py_isspace s"
  shows "py_strip s = []"
  using assms by (auto simp add: py_strip_def list_all_iff dest: set_dropWhileD)

subsection \<open>Evaluations of the builtins used below\<close>

lemma py_int_abc: "py_int ''abc'' = None"
  by (simp add: py_int_def numeric_strip_def py_numeric_space_def MAX_STR_DIGITS_def
      is_digit_def digit_of_def)

lemma py_int_100: "py_int ''100'' = Some 100"
  by (simp add: py_int_def numeric_strip_def py_numeric_space_def MAX_STR_DIGITS_def
      is_digit_def digit_of_def)

lemma py_int_0: "py_int ''0'' = Some 0"
  by (simp add: py_int_def numeric_strip_def py_numeric_space_def MAX_STR_DIGITS_def
      is_digit_def digit_of_def)

lemma py_strip_abc: "py_strip ''abc'' = ''abc''"
  by code_simp

lemma py_float_abc: "py_float ''abc'' = None"
  by code_simp

lemma space_tab_isspace: "list_all py_isspace [CHR '' '', CHR 0x09, CHR '' '']"
  by (simp add: py_isspace_def)

subsection \<open>\_safe\_int\<close>

text \<open>
  Claim C8. \<open>_safe_int\<close> is total: the only exception of its body, the ValueError (or
  TypeError) of \<open>int\<close>, is caught, so the model is a function into \<open>int\<close>. When
  \<open>min_value \<le> max_value\<close> (or no \<open>max_value\<close> is given) the result is at least
  \<open>min_value\<close>, it is at most \<open>max_value\<close> when one is given, and a missing or
  non-numeric \<open>raw_value\<close> yields the default clamped to the bounds.
\<close>

theorem safe_int_total_in_bounds:
  fixes to_int :: "string \<Rightarrow> int option"
  assumes "\<forall>m. max_value = Some m \<longrightarrow> min_value \<le> m"
  shows "min_value \<le> safe_int to_int raw_value dflt min_value max_value
       \<and> (\<forall>m. max_value = Some m
             \<longrightarrow> safe_int to_int raw_value dflt min_value max_value \<le> m)
       \<and> (raw_value = None \<or> (\<exists>s. raw_value = Some s \<and> to_int s = None)
             \<longrightarrow> safe_int to_int raw_value dflt min_value max_value
                 = (case max_value of
                      None \<Rightarrow> max min_value dflt
                    | Some m \<Rightarrow> min m (max min_value dflt)))"
  using assms by (auto simp add: safe_int_def Let_def split: option.splits)

theorem safe_int_total_in_bounds_witness:
  "safe_int py_int (Some ''abc'') 10 1 (Some 25) = 10
     \<and> 1 \<le> safe_int py_int (Some ''100'') 10 1 (Some 25)
     \<and> safe_int py_int (Some ''100'') 10 1 (Some 25) \<le> 25"
  using safe_int_total_in_bounds [of "Some 25" 1 py_int "Some ''abc''" 10]
    safe_int_total_in_bounds [of "Some 25" 1 py_int "Some ''100''" 10]
  by (simp add: py_int_abc)

subsection \<open>Frame selection parameters\<close>

text \<open>
  Claim C2. Whatever the form holds in \<open>frame_skip\<close> and \<open>max_frames\<close> (nothing, a
  number, anything else), the handler computes both parameters without an error:
  \<open>frame_skip\<close> is the maximum of 1 and the parsed value, with 1 for a missing or
  non-numeric field; \<open>max_frames\<close> is the parsed value clamped to 1 .. 25, with 10 for a
  missing or non-numeric field.
\<close>

theorem frame_selection_clamped:
  fixes to_int :: "string \<Rightarrow> int option"
  shows "frame_skip_of to_int form
           = max 1 (case form ''frame_skip'' of
                      None \<Rightarrow> 1
                    | Some s \<Rightarrow> (case to_int s of None \<Rightarrow> 1 | Some v \<Rightarrow> v))
       \<and> max_frames_of to_int form
           = min 25 (max 1 (case form ''max_frames'' of
                              None \<Rightarrow> 10
                            | Some s \<Rightarrow> (case to_int s of None \<Rightarrow> 10 | Some v \<Rightarrow> v)))
       \<and> 1 \<le> frame_skip_of to_int form
       \<and> 1 \<le> max_frames_of to_int form \<and> max_frames_of to_int form \<le> 25"
  by (simp add: frame_skip_of_def max_frames_of_def safe_int_def MAX_FRAMES_DISPLAY_def
      split: option.splits)

theorem frame_selection_clamped_witness:
  "frame_skip_of py_int [''frame_skip'' \<mapsto> ''0'', ''max_frames'' \<mapsto> ''100''] = 1
     \<and> max_frames_of py_int [''frame_skip'' \<mapsto> ''0'', ''max_frames'' \<mapsto> ''100''] = 25
     \<and> frame_skip_of py_int [''max_frames'' \<mapsto> ''abc''] = 1
     \<and> max_frames_of py_int [''max_frames'' \<mapsto> ''abc''] = 10"
  using frame_selection_clamped
      [of py_int "[''frame_skip'' \<mapsto> ''0'', ''max_frames'' \<mapsto> ''100'']"]
    frame_selection_clamped [of py_int "[''max_frames'' \<mapsto> ''abc'']"]
  by (simp add: py_int_abc py_int_100 py_int_0)

subsection \<open>\_parse\_optional\_float\<close>

text \<open>
  Claim C3. For a vmin or vmax field: a missing value, or one that is empty once
  stripped, parses to \<open>None\<close>; a value that is not empty once stripped and that
  \<open>float\<close> rejects raises a ValueError whose message is the field name followed by
  \<open>" must be a number."\<close>.
\<close>

theorem parse_optional_float_cases:
  fixes to_float :: "string \<Rightarrow> 'f option"
  shows "(raw_value = None \<or> (\<exists>s. raw_value = Some s \<and> py_strip s = [])
            \<longrightarrow> parse_optional_float to_float raw_value field_name = Inr None)
       \<and> (\<forall>s. raw_value = Some s \<and> py_strip s \<noteq> [] \<and> to_float (py_strip s) = None
            \<longrightarrow> parse_optional_float to_float raw_value field_name
                  = Inl (ValueError (field_name @ '' must be a number.'')))"
  by (auto simp add: parse_optional_float_def Let_def)

theorem parse_optional_float_cases_witness:
  "parse_optional_float py_float None ''vmin'' = Inr None
     \<and> parse_optional_float py_float (Some ''abc'') ''vmin''
         = Inl (ValueError ''vmin must be a number.'')"
  using parse_optional_float_cases [of None py_float "''vmin''"]
    parse_optional_float_cases [of "Some ''abc''" py_float "''vmin''"]
  by (simp add: py_strip_abc py_float_abc)

text \<open>
  Claim C9. A field made of white space only (one or more characters, all of them
  white space) parses to \<open>None\<close>, as a missing field does: it is never reported as a
  malformed number.
\<close>

theorem whitespace_only_is_absent:
  fixes to_float :: "string \<Rightarrow> 'f option"
  assumes "list_all py_isspace s"
  shows "parse_optional_float to_float (Some s) field_name = Inr None"
  using assms by (simp add: parse_optional_float_def py_strip_all_space)

theorem whitespace_only_is_absent_witness:
  "list_all py_isspace [CHR '' '', CHR 0x09, CHR '' '']
     \<and> parse_optional_float py_float (Some [CHR '' '', CHR 0x09, CHR '' '']) ''vmax''
         = Inr None"
  using whitespace_only_is_absent [OF space_tab_isspace, of py_float "''vmax''"]
    space_tab_isspace
  by simp

subsection \<open>The colour scale of a plot request\<close>

lemma requested_cmap_valid: "requested_cmap raw \<in> set valid_cmap_values"
  by (simp add: requested_cmap_def Let_def valid_cmap_values_def PLOT_CMAPS_def
      PLOT_DEFAULT_FORM_def)

lemma requested_cmap_fallback:
  "name \<notin> set valid_cmap_values \<Longrightarrow> requested_cmap (Some name) = ''gray''"
  by (simp add: requested_cmap_def Let_def valid_cmap_values_def PLOT_CMAPS_def
      PLOT_DEFAULT_FORM_def)

lemma requested_cmap_gray: "requested_cmap (Some ''gray'') = ''gray''"
  by (simp add: requested_cmap_def Let_def valid_cmap_values_def PLOT_CMAPS_def
      PLOT_DEFAULT_FORM_def)

lemma jet_not_valid: "''jet'' \<notin> set valid_cmap_values"
  by (simp add: valid_cmap_values_def PLOT_CMAPS_def)

lemma plot_prepare_call_cmap:
  assumes "plot_prepare to_float parse_lit form = Inr (Inr c)"
  shows "call_cmap c = requested_cmap (form ''plot_cmap'')"
  using assms
  by (auto simp add: plot_prepare_def Let_def read_plot_form_def
      split: if_splits sum.splits exn.splits)

lemma read_plot_form_cmap:
  "name \<notin> set valid_cmap_values
     \<Longrightarrow> read_plot_form (form(''plot_cmap'' \<mapsto> name))
         = read_plot_form (form(''plot_cmap'' \<mapsto> ''gray''))"
  by (simp add: read_plot_form_def form_get_def requested_cmap_fallback requested_cmap_gray)

text \<open>
  Claim C10. The names the handler accepts are gray, viridis, plasma, magma and
  inferno. Whenever the handler calls \<open>matrix_to_plot_png\<close>, the colour scale it passes
  is one of them: a missing or empty \<open>plot_cmap\<close> field is read as gray, and so is
  any value that is not one of the five.
\<close>

theorem plot_cmap_always_valid:
  fixes to_float :: "string \<Rightarrow> 'f option" and parse_lit :: "string \<Rightarrow> exn + 'm"
  shows "set valid_cmap_values = {''gray'', ''viridis'', ''plasma'', ''magma'', ''inferno''}
       \<and> (\<forall>c. plot_prepare to_float parse_lit form = Inr (Inr c)
              \<longrightarrow> call_cmap c \<in> set valid_cmap_values)
       \<and> (form ''plot_cmap'' = None \<or> form ''plot_cmap'' = Some []
              \<longrightarrow> requested_cmap (form ''plot_cmap'') = ''gray'')
       \<and> (\<forall>v. form ''plot_cmap'' = Some v \<and> v \<notin> set valid_cmap_values
              \<longrightarrow> requested_cmap (form ''plot_cmap'') = ''gray'')"
proof (intro conjI allI impI)
  show "set valid_cmap_values = {''gray'', ''viridis'', ''plasma'', ''magma'', ''inferno''}"
    by (rule valid_cmap_values_eq)
next
  fix c :: "('m, 'f) plot_call"
  assume "plot_prepare to_float parse_lit form = Inr (Inr c)"
  then show "call_cmap c \<in> set valid_cmap_values"
    by (simp add: plot_prepare_call_cmap requested_cmap_valid)
next
  assume "form ''plot_cmap'' = None \<or> form ''plot_cmap'' = Some []"
  then show "requested_cmap (form ''plot_cmap'') = ''gray''"
    by (auto simp add: requested_cmap_def Let_def valid_cmap_values_def PLOT_CMAPS_def
        PLOT_DEFAULT_FORM_def)
next
  fix v
  assume "form ''plot_cmap'' = Some v \<and> v \<notin> set valid_cmap_values"
  then show "requested_cmap (form ''plot_cmap'') = ''gray''"
    by (simp add: requested_cmap_fallback)
qed

theorem plot_cmap_always_valid_witness:
  "plot_prepare py_float (\<lambda>s. Inr s) [''matrix_text'' \<mapsto> ''[[1]]'', ''plot_cmap'' \<mapsto> ''jet'']
       = Inr (Inr \<lparr>call_matrix = ''[[1]]'', call_cmap = ''gray'',
                   call_vmin = Some (Decimal 0 0), call_vmax = Some (Decimal 255 0),
                   call_title = Some ''Before Levitt''\<rparr>)
     \<and> ''gray'' \<in> set valid_cmap_values
     \<and> requested_cmap ([''matrix_text'' \<mapsto> ''[[1]]'', ''plot_cmap'' \<mapsto> ''jet''] ''plot_cmap'')
         = ''gray''"
proof -
  let ?form = "[''matrix_text'' \<mapsto> ''[[1]]'', ''plot_cmap'' \<mapsto> ''jet'']"
  let ?call = "\<lparr>call_matrix = ''[[1]]'', call_cmap = ''gray'',
                 call_vmin = Some (Decimal 0 0), call_vmax = Some (Decimal 255 0),
                 call_title = Some ''Before Levitt''\<rparr>"
  have run: "plot_prepare py_float (\<lambda>s. Inr s) ?form = Inr (Inr ?call)"
    by code_simp
  have field: "?form ''plot_cmap'' = Some ''jet''"
    by simp
  from plot_cmap_always_valid [of py_float "\<lambda>s. Inr s" ?form] run field jet_not_valid
  show ?thesis by simp
qed

text \<open>
  Claim C4. A plot request that names a colour scale outside the five accepted names
  is answered exactly as the same request naming gray: the same page, the same error
  or the same picture, whatever the matrix and whatever the plotter does.
\<close>

theorem unknown_cmap_renders_as_gray:
  fixes to_float :: "string \<Rightarrow> 'f option" and parse_lit :: "string \<Rightarrow> exn + 'm"
    and plot_png :: "'m \<Rightarrow> string \<Rightarrow> 'f option \<Rightarrow> 'f option \<Rightarrow> string option \<Rightarrow> exn + 'png"
  assumes "name \<notin> set valid_cmap_values"
  shows "index_plot to_float parse_lit plot_png b64 (form(''plot_cmap'' \<mapsto> name))
           = index_plot to_float parse_lit plot_png b64 (form(''plot_cmap'' \<mapsto> ''gray''))"
  by (simp only: index_plot_def plot_prepare_def read_plot_form_cmap [OF assms])

theorem unknown_cmap_renders_as_gray_witness:
  "''jet'' \<notin> set valid_cmap_values
     \<and> index_plot py_float (\<lambda>s. Inr s) (\<lambda>m c lo hi t. Inr (c @ '':'' @ m)) (\<lambda>p. p)
         ([''matrix_text'' \<mapsto> ''[[1]]''](''plot_cmap'' \<mapsto> ''jet''))
       = Inr \<lparr>page_result =
                Some \<lparr>title = ''Before Levitt'',
                      data_url = ''data:image/png;base64,gray:[[1]]''\<rparr>,
              page_error = None,
              page_form =
                \<lparr>matrix_text = ''[[1]]'', plot_title = ''Before Levitt'',
                 plot_vmin = ''0'', plot_vmax = ''255'', plot_cmap = ''gray''\<rparr>\<rparr>"
proof -
  have gray:
    "index_plot py_float (\<lambda>s. Inr s) (\<lambda>m c lo hi t. Inr (c @ '':'' @ m)) (\<lambda>p. p)
         ([''matrix_text'' \<mapsto> ''[[1]]''](''plot_cmap'' \<mapsto> ''gray''))
       = Inr \<lparr>page_result =
                Some \<lparr>title = ''Before Levitt'',
                      data_url = ''data:image/png;base64,gray:[[1]]''\<rparr>,
              page_error = None,
              page_form =
                \<lparr>matrix_text = ''[[1]]'', plot_title = ''Before Levitt'',
                 plot_vmin = ''0'', plot_vmax = ''255'', plot_cmap = ''gray''\<rparr>\<rparr>"
    by code_simp
  from unknown_cmap_renders_as_gray [OF jet_not_valid, of py_float "\<lambda>s. Inr s"
      "\<lambda>m c lo hi t. Inr (c @ '':'' @ m)" "\<lambda>p. p" "[''matrix_text'' \<mapsto> ''[[1]]'']"]
    gray jet_not_valid
  show ?thesis by (simp only: simp_thms)
qed

section \<open>Properties of the modelled conversion functions\<close>

subsection \<open>Decimal digits\<close>

lemma digit_char_props:
  assumes "d < 10"
  shows "is_digit (digit_char d)" and "digit_of (digit_char d) = d"
    and "of_char (digit_char d) = 48 + d"
  using assms by (simp_all add: is_digit_def digit_of_def digit_char_def)

lemma nat_digits_all_digits: "list_all is_digit (nat_digits n)"
proof (induction n rule: nat_digits.induct)
  case (1 n)
  show ?case
  proof (cases "n < 10")
    case True
    then show ?thesis by (subst nat_digits.simps) (simp add: digit_char_props)
  next
    case False
    with 1 show ?thesis
      by (subst nat_digits.simps) (simp add: digit_char_props)
  qed
qed

lemma nat_digits_nonempty: "nat_digits n \<noteq> []"
  by (subst nat_digits.simps) simp

lemma digits_to_nat_snoc: "digits_to_nat (ds @ [c]) = 10 * digits_to_nat ds + digit_of c"
  by (simp add: digits_to_nat_def)

lemma digits_to_nat_nat_digits: "digits_to_nat (nat_digits n) = n"
proof (induction n rule: nat_digits.induct)
  case (1 n)
  show ?case
  proof (cases "n < 10")
    case True
    then show ?thesis
      by (subst nat_digits.simps) (simp add: digits_to_nat_def digit_char_props)
  next
    case False
    then have "digits_to_nat (nat_digits n)
        = 10 * digits_to_nat (nat_digits (n div 10)) + digit_of (digit_char (n mod 10))"
      by (subst nat_digits.simps) (simp add: digits_to_nat_snoc)
    with 1 False show ?thesis by (simp add: digit_char_props)
  qed
qed

lemma takeWhile_all: "list_all P xs \<Longrightarrow> takeWhile P xs = xs"
  by (induction xs) simp_all

lemma dropWhile_all: "list_all P xs \<Longrightarrow> dropWhile P xs = []"
  by (induction xs) simp_all

lemma minus_not_digit: "\<not> is_digit CHR ''-''"
  by (simp add: is_digit_def)

lemma hd_nat_digits_not_minus: "hd (nat_digits n) \<noteq> CHR ''-''"
proof -
  have "is_digit (hd (nat_digits n))"
    using nat_digits_all_digits [of n] nat_digits_nonempty [of n]
    by (cases "nat_digits n") simp_all
  then show ?thesis using minus_not_digit by auto
qed

lemma number_token_digits:
  "number_token (nat_digits n) = Some (of_nat n)"
  using hd_nat_digits_not_minus [of n]
  by (simp add: number_token_def Let_def nat_digits_nonempty
      takeWhile_all dropWhile_all nat_digits_all_digits digits_to_nat_nat_digits)

lemma number_token_minus_digits:
  "number_token (CHR ''-'' # nat_digits n) = Some (- of_nat n)"
  by (simp add: number_token_def Let_def nat_digits_nonempty
      takeWhile_all dropWhile_all nat_digits_all_digits digits_to_nat_nat_digits)

lemma number_token_format_int: "number_token (format_int i) = Some (of_int i)"
proof (cases "i < 0")
  case True
  then have "(of_int i :: rat) = - of_nat (nat (- i))" by simp
  with True show ?thesis
    by (simp only: format_int_def number_token_minus_digits if_True)
next
  case False
  then have "(of_int i :: rat) = of_nat (nat i)" by simp
  with False show ?thesis
    by (simp only: format_int_def number_token_digits if_False)
qed

subsection \<open>Tokens of a formatted matrix\<close>

lemma tokenize_word:
  "list_all word_char w \<Longrightarrow> tokenize buf (w @ rest) = tokenize (buf @ w) rest"
  by (induction w arbitrary: buf) (simp_all add: word_char_def)

lemma digit_word_char: "is_digit c \<Longrightarrow> word_char c"
  by (auto simp add: is_digit_def word_char_def py_isspace_def)

lemma format_int_word: "list_all word_char (format_int i)"
proof -
  have "list_all word_char (nat_digits n)" for n
    using nat_digits_all_digits [of n] by (simp add: list_all_iff digit_word_char)
  moreover have "word_char CHR ''-''"
    by (simp add: word_char_def py_isspace_def)
  ultimately show ?thesis by (simp add: format_int_def)
qed

lemma format_int_nonempty: "format_int i \<noteq> []"
  by (simp add: format_int_def nat_digits_nonempty)

lemma space_isspace: "py_isspace CHR '' ''"
  by (simp add: py_isspace_def)

lemma tokenize_number:
  "tokenize [] (format_int i @ rest) = tokenize (format_int i) rest"
  using tokenize_word [OF format_int_word, of "[]" i rest] by simp

lemma tokenize_row_body:
  "tokenize [] (join '', '' (map format_int r) @ CHR '']'' # rest)
     = row_tokens r @ RBracket # tokenize [] rest"
proof (induction r rule: row_tokens.induct)
  case 1
  show ?case by (simp add: flush_def)
next
  case (2 x)
  show ?case by (simp add: tokenize_number flush_def format_int_nonempty)
next
  case (3 x y ys)
  have "tokenize [] (join '', '' (map format_int (x # y # ys)) @ CHR '']'' # rest)
      = tokenize [] (format_int x
          @ CHR '','' # CHR '' '' # join '', '' (map format_int (y # ys)) @ CHR '']'' # rest)"
    by simp
  also have "\<dots> = Word (format_int x) # Comma
      # tokenize [] (join '', '' (map format_int (y # ys)) @ CHR '']'' # rest)"
    by (simp add: tokenize_number flush_def format_int_nonempty space_isspace)
  finally show ?case using 3 by simp
qed

lemma tokenize_format_row:
  "tokenize [] (format_row r @ rest) = LBracket # row_tokens r @ RBracket # tokenize [] rest"
  using tokenize_row_body [of r rest] by (simp add: format_row_def flush_def)

lemma tokenize_matrix_body:
  "tokenize [] (join '', '' (map format_row m) @ CHR '']'' # rest)
     = matrix_tokens m @ RBracket # tokenize [] rest"
proof (induction m rule: matrix_tokens.induct)
  case 1
  show ?case by (simp add: flush_def)
next
  case (2 r)
  show ?case by (simp add: tokenize_format_row flush_def)
next
  case (3 r r' rs)
  have "tokenize [] (join '', '' (map format_row (r # r' # rs)) @ CHR '']'' # rest)
      = tokenize [] (format_row r
          @ CHR '','' # CHR '' '' # join '', '' (map format_row (r' # rs)) @ CHR '']'' # rest)"
    by simp
  also have "\<dots> = LBracket # row_tokens r @ RBracket # Comma
      # tokenize [] (join '', '' (map format_row (r' # rs)) @ CHR '']'' # rest)"
    by (simp add: tokenize_format_row flush_def space_isspace)
  finally show ?case using 3 by simp
qed

lemma parse_items_row_tokens:
  "r \<noteq> [] \<Longrightarrow> parse_items (row_tokens r @ RBracket # ts) = Inr (map of_int r, ts)"
  by (induction r rule: row_tokens.induct) (simp_all add: number_token_format_int)

lemma parse_row_row_tokens:
  assumes "r \<noteq> []"
  shows "parse_row (LBracket # row_tokens r @ RBracket # ts) = Inr (map of_int r, ts)"
proof -
  from assms obtain w tl where "row_tokens r = Word w # tl"
    by (cases r rule: row_tokens.cases) auto
  then have "parse_row (LBracket # row_tokens r @ RBracket # ts)
      = parse_items (row_tokens r @ RBracket # ts)"
    by simp
  with assms show ?thesis by (simp add: parse_items_row_tokens)
qed

lemma parse_rows_matrix_tokens:
  "m \<noteq> [] \<Longrightarrow> [] \<notin> set m
     \<Longrightarrow> parse_rows (matrix_tokens m @ RBracket # ts) = Inr (map (map of_int) m, ts)"
proof (induction m rule: matrix_tokens.induct)
  case 1
  then show ?case by simp
next
  case (2 r)
  then have "r \<noteq> []" by auto
  then show ?case
    by (subst parse_rows.simps) (simp add: parse_row_row_tokens)
next
  case (3 r r' rs)
  then have r: "r \<noteq> []" and rest: "[] \<notin> set (r' # rs)" by auto
  from 3 rest have ih: "parse_rows (matrix_tokens (r' # rs) @ RBracket # ts)
      = Inr (map (map of_int) (r' # rs), ts)"
    by simp
  show ?case
    by (subst parse_rows.simps) (simp add: parse_row_row_tokens [OF r] ih)
qed

subsection \<open>The round trip\<close>

lemma py_strip_id:
  assumes "s \<noteq> []" and "\<not> py_isspace (hd s)" and "\<not> py_isspace (last s)"
  shows "py_strip s = s"
proof -
  from assms have front: "dropWhile py_isspace s = s"
    by (cases s) simp_all
  from assms have "rev s \<noteq> []" and "\<not> py_isspace (hd (rev s))"
    by (simp_all add: hd_rev)
  then have "dropWhile py_isspace (rev s) = rev s"
    by (cases "rev s") simp_all
  with front show ?thesis by (simp add: py_strip_def)
qed

lemma identifier_chars:
  assumes "valid_identifier v" and "c \<in> set v"
  shows "c \<noteq> CHR ''[''" and "\<not> py_isspace c"
  using assms
  by (auto simp add: valid_identifier_def list_all_iff is_alpha_def is_digit_def
      py_isspace_def Let_def)

lemma identifier_hd:
  assumes "valid_identifier v"
  shows "v \<noteq> []" and "\<not> py_isspace (hd v)"
proof -
  from assms show "v \<noteq> []" by (simp add: valid_identifier_def)
  then have "hd v \<in> set v" by simp
  with assms show "\<not> py_isspace (hd v)" by (rule identifier_chars(2))
qed

lemma bracket_not_space: "\<not> py_isspace CHR '']''"
  by (simp add: py_isspace_def)

lemma py_strip_formatted:
  assumes "valid_identifier v"
  shows "py_strip (format_matrix_as_sage m v) = format_matrix_as_sage m v"
proof (rule py_strip_id)
  show "format_matrix_as_sage m v \<noteq> []"
    by (simp add: format_matrix_as_sage_def)
  show "\<not> py_isspace (hd (format_matrix_as_sage m v))"
    using identifier_hd [OF assms] by (simp add: format_matrix_as_sage_def)
  show "\<not> py_isspace (last (format_matrix_as_sage m v))"
    by (simp add: format_matrix_as_sage_def bracket_not_space)
qed

lemma drop_to_bracket:
  assumes "valid_identifier v"
  shows "dropWhile (\<lambda>c. c \<noteq> CHR ''['') (format_matrix_as_sage m v)
           = CHR ''['' # join '', '' (map format_row m) @ '']''"
proof -
  have "dropWhile (\<lambda>c. c \<noteq> CHR ''['') (v @ rest) = dropWhile (\<lambda>c. c \<noteq> CHR ''['') rest"
    for rest
    using identifier_chars(1) [OF assms] by (simp add: dropWhile_append2)
  then show ?thesis by (simp add: format_matrix_as_sage_def)
qed

lemma tokenize_formatted:
  "tokenize [] (CHR ''['' # join '', '' (map format_row m) @ '']'')
     = LBracket # matrix_tokens m @ [RBracket]"
  using tokenize_matrix_body [of m "[]"] by (simp add: flush_def)

lemma matrix_tokens_start:
  assumes "m \<noteq> []"
  obtains ts where "matrix_tokens m = LBracket # ts"
  using assms by (cases m rule: matrix_tokens.cases) auto

lemma check_shape_wf:
  assumes "wf_matrix m"
  shows "check_shape (map (map rat_of_int) m) = Inr (map (map rat_of_int) m)"
proof -
  let ?rows = "map (map rat_of_int) m"
  from assms have ne: "m \<noteq> []" and cols: "[] \<notin> set m"
    and len: "list_all (\<lambda>r. length r = length (hd m)) m"
    by (simp_all add: wf_matrix_def)
  from ne have c1: "?rows \<noteq> []" by simp
  from cols have c2: "[] \<notin> set ?rows" by (induction m) auto
  from ne have "hd ?rows = map rat_of_int (hd m)" by (simp add: hd_map)
  then have "length (hd ?rows) = length (hd m)" by simp
  with len have c3: "list_all (\<lambda>r. length r = length (hd ?rows)) ?rows"
    by (simp add: list_all_iff)
  show ?thesis
    unfolding check_shape_def using c1 c2 c3 by (simp only: if_False if_True not_True_eq_False not_False_eq_True simp_thms)
qed

lemma wf_example: "wf_matrix [[1, -2], [30, 456 :: int]]"
  by (simp add: wf_matrix_def)

lemma ident_example: "valid_identifier ''M_001''"
  by (simp add: valid_identifier_def is_alpha_def is_digit_def)

lemma digit_chars:
  "map digit_char [0, 1, 2, 3, 4, 5, 6, 7, 8, 9] = ''0123456789''"
  by code_simp

lemma format_example:
  "format_matrix_as_sage [[1, -2], [30, 456]] ''M_001'' = ''M_001 = [[1, -2], [30, 456]]''"
  using digit_chars
  by (simp add: format_matrix_as_sage_def format_row_def format_int_def nat_digits.simps)

text \<open>
  Claim C1. For every matrix \<open>m\<close> of integer entries that satisfies the Matrix invariant
  and every valid identifier \<open>v\<close>, parsing the text that \<open>format_matrix_as_sage\<close> writes for
  \<open>m\<close> under the name \<open>v\<close> succeeds and returns \<open>m\<close>, entry for entry.
\<close>

theorem parse_format_roundtrip:
  assumes "wf_matrix m" and "valid_identifier v"
  shows "parse_matrix_literal (format_matrix_as_sage m v) = Inr (map (map rat_of_int) m)"
proof -
  from assms(1) have ne: "m \<noteq> []" and rows: "[] \<notin> set m"
    by (simp_all add: wf_matrix_def)
  from ne obtain ts where ts: "matrix_tokens m = LBracket # ts"
    by (rule matrix_tokens_start)
  have toks: "tokenize [] (dropWhile (\<lambda>c. c \<noteq> CHR ''['') (py_strip (format_matrix_as_sage m v)))
      = LBracket # matrix_tokens m @ [RBracket]"
    by (simp only: py_strip_formatted [OF assms(2)] drop_to_bracket [OF assms(2)]
        tokenize_formatted)
  have rows_ok: "parse_rows (matrix_tokens m @ [RBracket]) = Inr (map (map rat_of_int) m, [])"
    using parse_rows_matrix_tokens [OF ne rows, of "[]"] by simp
  have nonempty: "py_strip (format_matrix_as_sage m v) \<noteq> []"
    by (simp only: py_strip_formatted [OF assms(2)]) (simp add: format_matrix_as_sage_def)
  have "parse_matrix_literal (format_matrix_as_sage m v)
      = (case parse_rows (matrix_tokens m @ [RBracket]) of
           Inl e \<Rightarrow> Inl e
         | Inr (rows, _) \<Rightarrow> check_shape rows)"
    by (simp only: parse_matrix_literal_def Let_def toks nonempty ts if_False
        append_Cons list.case token.case)
  then show ?thesis
    by (simp add: rows_ok check_shape_wf [OF assms(1)])
qed

theorem parse_format_roundtrip_witness:
  "wf_matrix [[1, -2], [30, 456 :: int]] \<and> valid_identifier ''M_001''
     \<and> parse_matrix_literal ''M_001 = [[1, -2], [30, 456]]'' = Inr [[1, -2], [30, 456]]"
  using parse_format_roundtrip [OF wf_example ident_example] wf_example ident_example
  by (simp add: format_example)

subsection \<open>Frame selection\<close>

lemma walk_frames_eq:
  "walk_frames sample k cap i fs out
     = out @ map sample (take (cap - length out)
                 (map snd (filter (\<lambda>(j, f). j mod k = 0) (enumerate i fs))))"
proof (induction fs arbitrary: i out)
  case Nil
  show ?case by simp
next
  case (Cons f fs)
  show ?case
  proof (cases "cap \<le> length out")
    case True
    then show ?thesis by simp
  next
    case False
    then obtain d where d: "cap - length out = Suc d" "cap - Suc (length out) = d"
      by (cases "cap - length out") auto
    with False show ?thesis
      by (simp add: Cons.IH)
  qed
qed

lemma enumerate_selected:
  "map snd (filter (\<lambda>(j, f). P j) (enumerate i fs))
     = map (\<lambda>j. fs ! (j - i)) (filter P [i..<i + length fs])"
proof (induction fs arbitrary: i)
  case Nil
  show ?case by simp
next
  case (Cons f fs)
  have shift: "map (\<lambda>j. fs ! (j - Suc i)) (filter P [Suc i..<Suc i + length fs])
      = map (\<lambda>j. (f # fs) ! (j - i)) (filter P [Suc i..<Suc i + length fs])"
  proof (rule map_cong)
    fix j
    assume "j \<in> set (filter P [Suc i..<Suc i + length fs])"
    then have "j - i = Suc (j - Suc i)" by auto
    then show "fs ! (j - Suc i) = (f # fs) ! (j - i)" by simp
  qed simp
  have ih: "map snd (filter (\<lambda>(j, f). P j) (enumerate (Suc i) fs))
      = map (\<lambda>j. (f # fs) ! (j - i)) (filter P [Suc i..<Suc i + length fs])"
    using Cons.IH [of "Suc i"] shift by (simp only:)
  have en: "enumerate i (f # fs) = (i, f) # enumerate (Suc i) fs"
    by simp
  have up: "[i..<i + length (f # fs)] = i # [Suc i..<Suc i + length fs]"
    by (subst upt_rec) simp
  show ?case
    by (simp only: en up) (simp add: ih del: upt_Suc)
qed

lemma video_to_matrices_selected:
  "video_to_matrices sample k cap (Some frames)
     = Inr (map sample (take cap (map (\<lambda>j. frames ! j) (selected_indices k (length frames)))))"
  using enumerate_selected [of "\<lambda>j. j mod k = 0" 0 frames]
  by (simp add: video_to_matrices_def walk_frames_eq selected_indices_def)

lemma upt_5: "[0..<5] = [0, 1, 2, 3, 4 :: nat]"
  by code_simp

lemma selected_2_prefix:
  assumes "5 \<le> n"
  shows "take 3 (selected_indices 2 n) = [0, 2, 4]"
proof -
  from assms have "[0..<n] = [0..<5] @ [5..<n]"
    using upt_add_eq_append [of 0 5 "n - 5"] by simp
  then show ?thesis
    by (simp add: selected_indices_def upt_5)
qed

text \<open>
  Claim C5. On a stream that decodes, the video sampler returns the matrices of the
  frames whose 0-based decode index is a multiple of \<open>frame_skip\<close>, in order, and at most
  the first \<open>max_frames\<close> of them. With \<open>frame_skip = 2\<close> and \<open>max_frames = 3\<close> on a stream
  of at least 10 frames these are exactly the three matrices of the frames 0, 2 and 4.
\<close>

theorem video_frame_selection:
  fixes sample :: "'fr \<Rightarrow> 'm"
  shows "(1 \<le> frame_skip
            \<longrightarrow> video_to_matrices sample frame_skip max_frames (Some frames)
                = Inr (map sample (take max_frames
                         (map (\<lambda>j. frames ! j) (selected_indices frame_skip (length frames))))))
       \<and> (10 \<le> length frames
            \<longrightarrow> video_to_matrices sample 2 3 (Some frames)
                = Inr [sample (frames ! 0), sample (frames ! 2), sample (frames ! 4)])"
proof (intro conjI impI)
  show "video_to_matrices sample frame_skip max_frames (Some frames)
      = Inr (map sample (take max_frames
               (map (\<lambda>j. frames ! j) (selected_indices frame_skip (length frames)))))"
    by (rule video_to_matrices_selected)
next
  assume "10 \<le> length frames"
  then have "take 3 (selected_indices 2 (length frames)) = [0, 2, 4]"
    by (intro selected_2_prefix) simp
  then show "video_to_matrices sample 2 3 (Some frames)
      = Inr [sample (frames ! 0), sample (frames ! 2), sample (frames ! 4)]"
    by (simp add: video_to_matrices_selected take_map)
qed

theorem video_frame_selection_witness:
  "video_to_matrices (\<lambda>c. [c]) 2 3 (Some ''abcdefghij'') = Inr [''a'', ''c'', ''e'']"
  using video_frame_selection [where frames = "''abcdefghij''" and sample = "\<lambda>c. [c]"]
  by simp

subsection \<open>Value bounds of the renderer\<close>

lemma wf_not_degenerate: "wf_matrix m \<Longrightarrow> \<not> degenerate m"
  by (simp add: wf_matrix_def degenerate_def)

lemma wf_22: "wf_matrix [[1, 2], [3, 4 :: rat]]"
  by (simp add: wf_matrix_def)

text \<open>
  Claim C6. For every matrix that satisfies the Matrix invariant and every render
  request whose resolved bounds have \<open>vmin > vmax\<close>, rendering fails with RangeError: no
  picture is produced and the bounds are not swapped.
\<close>

theorem render_range_error:
  fixes palette :: "string \<Rightarrow> rat \<Rightarrow> 'c" and encode :: "'c list list \<Rightarrow> string option \<Rightarrow> 'png"
  assumes "wf_matrix m" and "resolve_bounds m vmin vmax = (lo, hi)" and "hi < lo"
  shows "matrix_to_plot_png palette encode m cmap vmin vmax title_value = Inl RangeError"
  using assms by (simp add: matrix_to_plot_png_def wf_not_degenerate)

theorem render_range_error_witness:
  "wf_matrix [[1, 2], [3, 4 :: rat]]
     \<and> resolve_bounds [[1, 2], [3, 4]] (Some 10) (Some 5) = (10, 5)
     \<and> matrix_to_plot_png (\<lambda>n t. (n, t)) (\<lambda>g t. g) [[1, 2], [3, 4]] ''gray'' (Some 10) (Some 5) None
         = Inl RangeError"
proof -
  have b: "resolve_bounds [[1, 2], [3, 4]] (Some 10) (Some 5) = (10, 5)"
    by (simp add: resolve_bounds_def)
  have "(5 :: rat) < 10" by simp
  from render_range_error [OF wf_22 b this, of "\<lambda>n t. (n, t)" "\<lambda>g t. g" "''gray''" None] wf_22 b
  show ?thesis by simp
qed

subsection \<open>Rescaling a uniform image\<close>

lemma fold_min_uniform: "\<forall>x\<in>set vs. x = v \<Longrightarrow> fold min vs (v :: rat) = v"
  by (induction vs) simp_all

lemma fold_max_uniform: "\<forall>x\<in>set vs. x = v \<Longrightarrow> fold max vs (v :: rat) = v"
  by (induction vs) simp_all

lemma rescale_uniform:
  assumes "\<forall>row\<in>set g. \<forall>x\<in>set row. x = c"
  shows "rescale_intensity g = Inr (map (map (\<lambda>_. 0)) g)"
proof (cases "concat g")
  case Nil
  then show ?thesis by (simp only: rescale_intensity_def list.case)
next
  case (Cons v vs)
  from assms have "\<forall>x\<in>set (concat g). x = c" by auto
  with Cons have "v = c" and "\<forall>x\<in>set vs. x = c" by auto
  then have "fold min vs v = v" and "fold max vs v = v"
    by (simp_all add: fold_min_uniform fold_max_uniform)
  then show ?thesis
    by (simp only: rescale_intensity_def Cons list.case Let_def) simp
qed

text \<open>
  The linear map itself raises on a range of width zero, on every intensity, and so
  does the loop over a grid that has an entry: the test \<open>hi = lo\<close> of
  \<open>rescale_intensity\<close> is what keeps a uniform image away from the division.
\<close>

lemma rescale_value_zero_range: "rescale_value lo lo x = Inl ZeroDivisionError"
  by (simp add: rescale_value_def checked_div_def)

lemma map_result_all_fail:
  assumes "\<And>x. f x = Inl e" and "row \<noteq> []"
  shows "map_result f row = Inl e"
  using assms by (cases row) simp_all

lemma linear_rescale_zero_range_fails:
  assumes "concat g \<noteq> []"
  shows "map_result (map_result (rescale_value lo lo)) g = Inl ZeroDivisionError"
  using assms
proof (induction g)
  case Nil
  then show ?case by simp
next
  case (Cons row g)
  show ?case
  proof (cases "row = []")
    case True
    with Cons show ?thesis by simp
  next
    case False
    then have "map_result (rescale_value lo lo) row = Inl ZeroDivisionError"
      by (simp add: map_result_all_fail rescale_value_zero_range)
    then show ?thesis by simp
  qed
qed

text \<open>
  Claim C7. For every image that decodes and whose resampled grid has a single
  intensity, the image sampler with rescale enabled returns a matrix and raises no
  exception (the division by zero of the linear map is not reached); the matrix has the
  grid's shape and all of its entries are one value.
\<close>

theorem uniform_image_rescales_to_constant:
  fixes decode :: "'b \<Rightarrow> 'img option"
  assumes "decode image_bytes = Some img"
    and "\<forall>row\<in>set (resample img target_size). \<forall>x\<in>set row. x = c"
  shows "\<exists>m k. image_to_matrix decode resample image_bytes target_size True = Inr m
           \<and> (\<forall>row\<in>set m. \<forall>x\<in>set row. x = k)
           \<and> map length m = map length (resample img target_size)"
proof (intro exI conjI)
  show "image_to_matrix decode resample image_bytes target_size True
      = Inr (map (map (\<lambda>_. 0)) (resample img target_size))"
    using assms(1) rescale_uniform [OF assms(2)]
    by (simp add: image_to_matrix_def)
  show "\<forall>row\<in>set (map (map (\<lambda>_. 0 :: rat)) (resample img target_size)). \<forall>x\<in>set row. x = 0"
    by auto
  show "map length (map (map (\<lambda>_. 0 :: rat)) (resample img target_size))
      = map length (resample img target_size)"
    by simp
qed

theorem uniform_image_rescales_to_constant_witness:
  "image_to_matrix Some (\<lambda>img s. img) [[7, 7], [7, 7 :: rat]] (2, 2) True
       = Inr [[0, 0], [0, 0]]
     \<and> (\<exists>m k. image_to_matrix Some (\<lambda>img s. img) [[7, 7], [7, 7 :: rat]] (2, 2) True = Inr m
            \<and> (\<forall>row\<in>set m. \<forall>x\<in>set row. x = k)
            \<and> map length m = map length [[7, 7], [7, 7 :: rat]])"
proof -
  have run: "image_to_matrix Some (\<lambda>img s. img) [[7, 7], [7, 7 :: rat]] (2, 2) True
      = Inr [[0, 0], [0, 0]]"
    by (simp add: image_to_matrix_def rescale_intensity_def)
  have decoded: "Some [[7, 7], [7, 7 :: rat]] = Some [[7, 7], [7, 7]]"
    by simp
  have uniform:
    "\<forall>row\<in>set ((\<lambda>img s. img) [[7, 7], [7, 7 :: rat]] (2 :: nat, 2 :: nat)). \<forall>x\<in>set row. x = 7"
    by simp
  from uniform_image_rescales_to_constant
      [where decode = Some and resample = "\<lambda>img s. img", OF decoded uniform]
  have "\<exists>m k. image_to_matrix Some (\<lambda>img s. img) [[7, 7], [7, 7 :: rat]] (2, 2) True = Inr m
            \<and> (\<forall>row\<in>set m. \<forall>x\<in>set row. x = k)
            \<and> map length m = map length [[7, 7], [7, 7 :: rat]]"
    by simp
  with run show ?thesis by (simp only: simp_thms)
qed

end
